theory Spec2Isabelle
  imports Main
begin

section \<open>Locale-aware number formatting (locales/intl.js)\<close>

text \<open>
  The module keeps one mutable locale slot and offers string transformations that read
  it. Strings are lists of code units (\<open>char\<close>, so code units 0..255); a separator
  of a locale is one code unit, as the host's number-format settings report it. Every
  function takes the locale it reads as an argument; \<open>setIntlLocale\<close> passes the
  module state explicitly and returns it. Where the JavaScript would throw, the model
  returns \<open>Inl\<close> of an error value.
\<close>

subsection \<open>JavaScript string primitives\<close>

definition endsWith :: "string \<Rightarrow> char \<Rightarrow> bool" where
  "endsWith s c = (s \<noteq> [] \<and> last s = c)"

definition startsWith :: "string \<Rightarrow> char \<Rightarrow> bool" where
  "startsWith s c = (case s of [] \<Rightarrow> False | x # _ \<Rightarrow> x = c)"

definition includes_str :: "string \<Rightarrow> char \<Rightarrow> bool" where
  "includes_str s c = (c \<in> set s)"

text \<open>\<open>s.slice(0, -1)\<close>: all but the last code unit; the empty string stays empty.\<close>

definition slice_0_m1 :: "string \<Rightarrow> string" where
  "slice_0_m1 s = butlast s"

text \<open>
  \<open>s.slice(0, end)\<close> with an optional integer \<open>end\<close>: \<open>undefined\<close> keeps the
  whole string, a negative \<open>end\<close> counts from the end of the string.
\<close>

definition slice_0 :: "string \<Rightarrow> int option \<Rightarrow> string" where
  "slice_0 s e =
     (case e of
        None \<Rightarrow> s
      | Some n \<Rightarrow> if 0 \<le> n then take (nat n) s else take (length s - nat (- n)) s)"

text \<open>\<open>s.substr(start, len)\<close> for a non-negative \<open>start\<close>.\<close>

definition substr :: "string \<Rightarrow> nat \<Rightarrow> nat \<Rightarrow> string" where
  "substr s start len = take len (drop start s)"

text \<open>
  \<open>s.split(sep)\<close> for a one-unit separator: the pieces between all occurrences of
  \<open>sep\<close>; never an empty array (\<open>''''.split(sep)\<close> is \<open>['''']\<close>).
\<close>

fun split :: "char \<Rightarrow> string \<Rightarrow> string list" where
  "split sep [] = [[]]"
| "split sep (c # cs) =
     (if c = sep then [] # split sep cs
      else (case split sep cs of [] \<Rightarrow> [[c]] | p # ps \<Rightarrow> (c # p) # ps))"

text \<open>
  Reading position \<open>i\<close> of an array, by index or by destructuring: \<open>None\<close> is
  JavaScript's \<open>undefined\<close>.
\<close>

definition at_index :: "'a list \<Rightarrow> nat \<Rightarrow> 'a option" where
  "at_index xs i = (if i < length xs then Some (xs ! i) else None)"

text \<open>
  \<open>s.replace(pattern, replacement)\<close> with a one-unit string pattern: only the first
  occurrence is replaced.
\<close>

fun replace_first :: "char \<Rightarrow> string \<Rightarrow> string \<Rightarrow> string" where
  "replace_first p r [] = []"
| "replace_first p r (c # cs) = (if c = p then r @ cs else c # replace_first p r cs)"

subsection \<open>The regular expression \<open>new RegExp('\\' + groupingSeparator, 'g')\<close>\<close>

text \<open>
  The pattern is a backslash followed by the separator, so what it matches depends on
  what that escape means (ECMAScript, non-unicode mode with the Annex B extensions):
  a class escape for d, D, w, W, s, S; a word-boundary assertion for b, B; a control
  character for f, n, r, t, v; a legacy octal escape for 0..7; a literal backslash
  followed by c for \<open>\c\<close>; and the character itself for everything else.
\<close>

datatype RegExp =
    Literal char
  | ClassDigit bool
  | ClassWord bool
  | ClassSpace bool
  | Boundary bool
  | BackslashC

definition isDecimalDigit :: "char \<Rightarrow> bool" where
  "isDecimalDigit c = (c \<in> set ''0123456789'')"

definition isWordChar :: "char \<Rightarrow> bool" where
  "isWordChar c =
     (c \<in> set ''abcdefghijklmnopqrstuvwxyzABCDEFGHIJKLMNOPQRSTUVWXYZ0123456789_'')"

text \<open>White space and line terminators among the code units 0..255.\<close>

definition isWhiteSpace :: "char \<Rightarrow> bool" where
  "isWhiteSpace c = (c \<in> set [CHR 0x09, CHR 0x0A, CHR 0x0B, CHR 0x0C, CHR 0x0D, CHR 0x20, CHR 0xA0])"

definition escapeRegExp :: "char \<Rightarrow> RegExp" where
  "escapeRegExp c =
     (if c = CHR ''d'' then ClassDigit True
      else if c = CHR ''D'' then ClassDigit False
      else if c = CHR ''w'' then ClassWord True
      else if c = CHR ''W'' then ClassWord False
      else if c = CHR ''s'' then ClassSpace True
      else if c = CHR ''S'' then ClassSpace False
      else if c = CHR ''b'' then Boundary True
      else if c = CHR ''B'' then Boundary False
      else if c = CHR ''f'' then Literal (CHR 0x0C)
      else if c = CHR ''n'' then Literal (CHR 0x0A)
      else if c = CHR ''r'' then Literal (CHR 0x0D)
      else if c = CHR ''t'' then Literal (CHR 0x09)
      else if c = CHR ''v'' then Literal (CHR 0x0B)
      else if c = CHR ''0'' then Literal (CHR 0x00)
      else if c = CHR ''1'' then Literal (CHR 0x01)
      else if c = CHR ''2'' then Literal (CHR 0x02)
      else if c = CHR ''3'' then Literal (CHR 0x03)
      else if c = CHR ''4'' then Literal (CHR 0x04)
      else if c = CHR ''5'' then Literal (CHR 0x05)
      else if c = CHR ''6'' then Literal (CHR 0x06)
      else if c = CHR ''7'' then Literal (CHR 0x07)
      else if c = CHR ''c'' then BackslashC
      else Literal c)"

text \<open>
  The length of the match that starts at the front of \<open>rest\<close>, where \<open>prev\<close> is the
  code unit before it (\<open>None\<close> at the start of the string).
\<close>

definition wordBoundary :: "char option \<Rightarrow> string \<Rightarrow> bool" where
  "wordBoundary prev rest =
     ((case prev of None \<Rightarrow> False | Some p \<Rightarrow> isWordChar p)
        \<noteq> (case rest of [] \<Rightarrow> False | x # _ \<Rightarrow> isWordChar x))"

fun match_at :: "RegExp \<Rightarrow> char option \<Rightarrow> string \<Rightarrow> nat option" where
  "match_at (Literal c) prev rest =
     (case rest of [] \<Rightarrow> None | x # _ \<Rightarrow> if x = c then Some 1 else None)"
| "match_at (ClassDigit pos) prev rest =
     (case rest of [] \<Rightarrow> None | x # _ \<Rightarrow> if isDecimalDigit x = pos then Some 1 else None)"
| "match_at (ClassWord pos) prev rest =
     (case rest of [] \<Rightarrow> None | x # _ \<Rightarrow> if isWordChar x = pos then Some 1 else None)"
| "match_at (ClassSpace pos) prev rest =
     (case rest of [] \<Rightarrow> None | x # _ \<Rightarrow> if isWhiteSpace x = pos then Some 1 else None)"
| "match_at (Boundary pos) prev rest =
     (if wordBoundary prev rest = pos then Some 0 else None)"
| "match_at BackslashC prev rest =
     (case rest of
        x # y # _ \<Rightarrow> if x = CHR 0x5C \<and> y = CHR ''c'' then Some 2 else None
      | _ \<Rightarrow> None)"

text \<open>
  \<open>s.replace(re, '''')\<close> for a global \<open>re\<close>: scanning from the left, every
  non-empty match is removed and the scan goes on after it; an empty match removes
  nothing and the scan moves one code unit on.
\<close>

function replace_all_loop :: "RegExp \<Rightarrow> char option \<Rightarrow> string \<Rightarrow> string" where
  "replace_all_loop re prev [] = []"
| "replace_all_loop re prev (x # xs) =
     (case match_at re prev (x # xs) of
        Some (Suc n) \<Rightarrow>
          replace_all_loop re (Some (last (x # take n xs))) (drop n xs)
      | _ \<Rightarrow> x # replace_all_loop re (Some x) xs)"
  by pat_completeness auto
termination
  by (relation "measure (\<lambda>(re, prev, s). length s)") auto

definition replace_all :: "RegExp \<Rightarrow> string \<Rightarrow> string" where
  "replace_all re s = replace_all_loop re None s"

subsection \<open>String to Number conversion, as far as \<open>isNaN\<close> sees it\<close>

text \<open>
  \<open>+s\<close> is \<open>NaN\<close> exactly when \<open>s\<close>, with white space trimmed at both ends, is
  neither empty nor a numeric literal of the StringNumericLiteral grammar: a signed
  decimal literal (with \<open>Infinity\<close> among the unsigned ones) or an unsigned binary,
  octal or hexadecimal integer literal. The magnitude of the number is not modelled:
  the code only asks whether it is \<open>NaN\<close>.
\<close>

datatype Number = NaN | PosInfinity | NegInfinity | OtherNumber

definition span_digits :: "string \<Rightarrow> string \<times> string" where
  "span_digits s = (takeWhile isDecimalDigit s, dropWhile isDecimalDigit s)"

definition isDigits1 :: "(char \<Rightarrow> bool) \<Rightarrow> string \<Rightarrow> bool" where
  "isDigits1 digit s = (s \<noteq> [] \<and> list_all digit s)"

definition ExponentPart :: "string \<Rightarrow> bool" where
  "ExponentPart s =
     (case s of
        [] \<Rightarrow> False
      | e # r \<Rightarrow>
          (e = CHR ''e'' \<or> e = CHR ''E'') \<and>
          (case r of
             [] \<Rightarrow> False
           | sg # ds \<Rightarrow>
               if sg = CHR ''+'' \<or> sg = CHR ''-'' then isDigits1 isDecimalDigit ds
               else isDigits1 isDecimalDigit r))"

definition StrUnsignedDecimalLiteral :: "string \<Rightarrow> bool" where
  "StrUnsignedDecimalLiteral s =
     (s = ''Infinity'' \<or>
      (let (ip, r1) = span_digits s in
       case r1 of
         [] \<Rightarrow> ip \<noteq> []
       | c # r2 \<Rightarrow>
           if c = CHR ''.''
           then (let (fp, r3) = span_digits r2
                 in (ip \<noteq> [] \<or> fp \<noteq> []) \<and> (r3 = [] \<or> ExponentPart r3))
           else ip \<noteq> [] \<and> ExponentPart r1))"

definition isBinaryDigit :: "char \<Rightarrow> bool" where
  "isBinaryDigit c = (c \<in> set ''01'')"

definition isOctalDigit :: "char \<Rightarrow> bool" where
  "isOctalDigit c = (c \<in> set ''01234567'')"

definition isHexDigit :: "char \<Rightarrow> bool" where
  "isHexDigit c = (c \<in> set ''0123456789abcdefABCDEF'')"

definition NonDecimalIntegerLiteral :: "string \<Rightarrow> bool" where
  "NonDecimalIntegerLiteral s =
     (case s of
        z # k # ds \<Rightarrow>
          z = CHR ''0'' \<and>
          ((k = CHR ''b'' \<or> k = CHR ''B'') \<and> isDigits1 isBinaryDigit ds \<or>
           (k = CHR ''o'' \<or> k = CHR ''O'') \<and> isDigits1 isOctalDigit ds \<or>
           (k = CHR ''x'' \<or> k = CHR ''X'') \<and> isDigits1 isHexDigit ds)
      | _ \<Rightarrow> False)"

definition trim :: "string \<Rightarrow> string" where
  "trim s = rev (dropWhile isWhiteSpace (rev (dropWhile isWhiteSpace s)))"

definition StringToNumber :: "string \<Rightarrow> Number" where
  "StringToNumber s =
     (let t = trim s in
      if t = [] then OtherNumber
      else if t = ''Infinity'' \<or> t = ''+Infinity'' then PosInfinity
      else if t = ''-Infinity'' then NegInfinity
      else if NonDecimalIntegerLiteral t then OtherNumber
      else (case t of
              c # r \<Rightarrow>
                if c = CHR ''+'' \<or> c = CHR ''-''
                then (if StrUnsignedDecimalLiteral r then OtherNumber else NaN)
                else (if StrUnsignedDecimalLiteral t then OtherNumber else NaN)
            | [] \<Rightarrow> OtherNumber))"

definition isNaN :: "Number \<Rightarrow> bool" where
  "isNaN n = (n = NaN)"

subsection \<open>Locales, options and the module state\<close>

record IntlLocaleType =
  localeIdentifier :: string
  decimalSeparator :: char
  groupingSeparator :: char

text \<open>
  What a caller hands to \<open>setIntlLocale\<close>: an object any field of which may be
  absent. \<open>None\<close> is a field that is \<open>undefined\<close> or, for a separator, the empty
  string: both are falsy.
\<close>

record LocaleDescriptor =
  d_localeIdentifier :: "string option"
  d_decimalSeparator :: "char option"
  d_groupingSeparator :: "char option"

record IntlNumberFormatOptionsType =
  toFixed :: "nat option"
  noGrouping :: "bool option"

datatype error = Error string | TypeError string

definition EN_US_LOCALE :: IntlLocaleType where
  "EN_US_LOCALE =
     \<lparr>localeIdentifier = ''en_US'', decimalSeparator = CHR ''.'', groupingSeparator = CHR '',''\<rparr>"

definition NATIVE_DECIMAL_SEPARATOR :: char where
  "NATIVE_DECIMAL_SEPARATOR = CHR ''.''"

definition NUMBER_GROUP_SIZE :: nat where
  "NUMBER_GROUP_SIZE = 3"

text \<open>The module state: the locale slot and what has been written to the console.\<close>

record module_state =
  current_locale :: IntlLocaleType
  console_warnings :: "string list"

definition truthy_string :: "string option \<Rightarrow> bool" where
  "truthy_string v = (case v of None \<Rightarrow> False | Some s \<Rightarrow> s \<noteq> [])"

text \<open>
  \<open>setIntlLocale\<close> returns what the call does (\<open>Inl\<close>: it throws) and the state
  it leaves.
\<close>

definition setIntlLocale :: "LocaleDescriptor option \<Rightarrow> module_state \<Rightarrow> (error + unit) \<times> module_state" where
  "setIntlLocale l st =
     (case l of
        None \<Rightarrow> (Inl (Error ''Please select locale for internationalization''), st)
      | Some d \<Rightarrow>
          (case (d_decimalSeparator d, d_groupingSeparator d) of
             (Some ds, Some gs) \<Rightarrow>
               if truthy_string (d_localeIdentifier d)
               then (Inr (),
                     st\<lparr>current_locale :=
                          \<lparr>localeIdentifier = the (d_localeIdentifier d),
                           decimalSeparator = ds, groupingSeparator = gs\<rparr>\<rparr>)
               else (Inr (),
                     st\<lparr>console_warnings := console_warnings st @
                          [''Cannot recognize user locale preferences. Default will be used.''],
                        current_locale := EN_US_LOCALE\<rparr>)
           | _ \<Rightarrow>
               (Inr (),
                st\<lparr>console_warnings := console_warnings st @
                     [''Cannot recognize user locale preferences. Default will be used.''],
                   current_locale := EN_US_LOCALE\<rparr>)))"

subsection \<open>formatNumber\<close>

text \<open>
  \<open>toFixed\<close> of the decimal-string library is not part of the module: the functions
  that call it take it as the argument \<open>toFixed_h\<close>, a function that returns a string
  or throws. The \<open>number\<close> argument is the text that \<open>String(number)\<close> gives.
\<close>

type_synonym toFixed_helper = "string \<Rightarrow> nat \<Rightarrow> nat \<Rightarrow> error + string"

text \<open>\<open>options && options.toFixed\<close>: an absent option and the number 0 are both falsy.\<close>

definition stringify_number :: "toFixed_helper \<Rightarrow> string \<Rightarrow> IntlNumberFormatOptionsType option \<Rightarrow> error + string" where
  "stringify_number toFixed_h number options =
     (case options of
        None \<Rightarrow> Inr number
      | Some opts \<Rightarrow>
          (case toFixed opts of
             None \<Rightarrow> Inr number
           | Some n \<Rightarrow> if n \<noteq> 0 then toFixed_h number n n else Inr number))"

text \<open>\<open>!options || !options.noGrouping\<close>\<close>

definition grouping_requested :: "IntlNumberFormatOptionsType option \<Rightarrow> bool" where
  "grouping_requested options =
     (case options of None \<Rightarrow> True | Some opts \<Rightarrow> noGrouping opts \<noteq> Some True)"

text \<open>The \<open>for\<close> loop of \<open>formatNumber\<close>, from its current \<open>i\<close> and \<open>intPart\<close>.\<close>

function group_loop :: "char \<Rightarrow> string \<Rightarrow> nat \<Rightarrow> nat \<Rightarrow> string \<Rightarrow> string" where
  "group_loop sep integers len i intPart =
     (if i < len
      then group_loop sep integers len (i + NUMBER_GROUP_SIZE)
             (intPart @ [sep] @ substr integers i NUMBER_GROUP_SIZE)
      else intPart)"
  by pat_completeness auto
termination
  by (relation "measure (\<lambda>(sep, integers, len, i, intPart). len - i)")
     (auto simp: NUMBER_GROUP_SIZE_def)

declare group_loop.simps [simp del]

definition formatNumber :: "toFixed_helper \<Rightarrow> IntlLocaleType \<Rightarrow> string \<Rightarrow> IntlNumberFormatOptionsType option \<Rightarrow> error + string" where
  "formatNumber toFixed_h locale number options =
     (case stringify_number toFixed_h number options of
        Inl e \<Rightarrow> Inl e
      | Inr stringify \<Rightarrow>
          (let parts = split NATIVE_DECIMAL_SEPARATOR stringify;
               decimals = at_index parts 1
           in case at_index parts 0 of
                None \<Rightarrow> Inl (TypeError ''integers is undefined'')
              | Some integers \<Rightarrow>
                  (let len = length integers;
                       intPart =
                         (if grouping_requested options
                          then (let i = (if len mod NUMBER_GROUP_SIZE = 0 then NUMBER_GROUP_SIZE
                                         else len mod NUMBER_GROUP_SIZE)
                                in group_loop (groupingSeparator locale) integers len i
                                     (substr integers 0 i))
                          else integers)
                   in Inr (case decimals of
                             None \<Rightarrow> intPart
                           | Some ds \<Rightarrow>
                               if ds \<noteq> [] then intPart @ [decimalSeparator locale] @ ds
                               else intPart))))"

subsection \<open>formatNumberInput\<close>

text \<open>
  \<open>Object.assign(_options, options)\<close>: a field the caller gives replaces the one
  inferred from the input.
\<close>

definition assign_options :: "nat option \<Rightarrow> IntlNumberFormatOptionsType option \<Rightarrow> IntlNumberFormatOptionsType" where
  "assign_options inferred options =
     (case options of
        None \<Rightarrow> \<lparr>toFixed = inferred, noGrouping = None\<rparr>
      | Some opts \<Rightarrow>
          \<lparr>toFixed = (case toFixed opts of None \<Rightarrow> inferred | Some n \<Rightarrow> Some n),
           noGrouping = noGrouping opts\<rparr>)"

definition formatNumberInput :: "toFixed_helper \<Rightarrow> IntlLocaleType \<Rightarrow> string \<Rightarrow> IntlNumberFormatOptionsType option \<Rightarrow> error + string" where
  "formatNumberInput toFixed_h locale input options =
     (if endsWith input (CHR ''.'') \<or> endsWith input (CHR '','')
      then (case formatNumber toFixed_h locale (slice_0_m1 input) None of
              Inl e \<Rightarrow> Inl e
            | Inr formatted \<Rightarrow> Inr (formatted @ [decimalSeparator locale]))
      else (let inferred =
                  (if includes_str input NATIVE_DECIMAL_SEPARATOR
                   then (case at_index (split NATIVE_DECIMAL_SEPARATOR input) 1 of
                           None \<Rightarrow> None
                         | Some decimalPart \<Rightarrow>
                             if decimalPart \<noteq> [] then Some (length decimalPart) else None)
                   else None)
            in formatNumber toFixed_h locale input (Some (assign_options inferred options))))"

subsection \<open>isValidInput, prettifyNumber, truncateDecimals, formatToNativeNumber\<close>

text \<open>The trailing \<open>'.'\<close> or \<open>','\<close> of a value becomes the locale's decimal separator.\<close>

definition normalize_trailing :: "IntlLocaleType \<Rightarrow> string \<Rightarrow> string" where
  "normalize_trailing locale v =
     (if endsWith v (CHR ''.'') \<or> endsWith v (CHR '','')
      then slice_0_m1 v @ [decimalSeparator locale]
      else v)"

definition standardize :: "IntlLocaleType \<Rightarrow> string \<Rightarrow> string" where
  "standardize locale v =
     replace_first (decimalSeparator locale) ''.''
       (replace_all (escapeRegExp (groupingSeparator locale)) v)"

definition isValidInput :: "IntlLocaleType \<Rightarrow> string \<Rightarrow> bool" where
  "isValidInput locale v =
     (if v = [decimalSeparator locale] then True
      else \<not> isNaN (StringToNumber (standardize locale (normalize_trailing locale v))))"

definition prettifyNumber :: "IntlLocaleType \<Rightarrow> string \<Rightarrow> string" where
  "prettifyNumber locale input =
     (let out = dropWhile (\<lambda>c. c = CHR ''0'') input
      in if startsWith out (decimalSeparator locale) then CHR ''0'' # out else out)"

definition truncateDecimals :: "IntlLocaleType \<Rightarrow> string \<Rightarrow> int option \<Rightarrow> bool \<Rightarrow> error + string" where
  "truncateDecimals locale input0 precision allowBlank =
     (let input = (if input0 = [] then (if allowBlank then [] else ''0'') else input0)
      in if \<not> includes_str input (decimalSeparator locale) then Inr input
         else (let parts = split (decimalSeparator locale) input
               in case at_index parts 1 of
                    None \<Rightarrow> Inl (TypeError ''decimals is undefined'')
                  | Some decimals \<Rightarrow>
                      Inr ((case at_index parts 0 of None \<Rightarrow> ''undefined'' | Some integers \<Rightarrow> integers)
                           @ [decimalSeparator locale] @ slice_0 decimals precision)))"

definition formatToNativeNumber :: "IntlLocaleType \<Rightarrow> string \<Rightarrow> string" where
  "formatToNativeNumber locale v = standardize locale (normalize_trailing locale v)"

subsection \<open>The fixed-point decimal helper\<close>

text \<open>
  Modelled from the spec: the fixed-point decimal helper (\<open>toFixed\<close> of the
  decimal-string library the module imports), whose code is not part of these sources.
  The spec's contract for it: it "takes a decimal string and a target precision and
  returns a decimal string rounded to exactly that many places". Here a fraction that is
  too short is padded with zeros and one that is too long is rounded half up on the
  magnitude. The theorems below hold for every helper; this one instantiates them.
\<close>

definition succ_digit :: "char \<Rightarrow> char" where
  "succ_digit c =
     (if c = CHR ''0'' then CHR ''1'' else if c = CHR ''1'' then CHR ''2''
      else if c = CHR ''2'' then CHR ''3'' else if c = CHR ''3'' then CHR ''4''
      else if c = CHR ''4'' then CHR ''5'' else if c = CHR ''5'' then CHR ''6''
      else if c = CHR ''6'' then CHR ''7'' else if c = CHR ''7'' then CHR ''8''
      else if c = CHR ''8'' then CHR ''9'' else c)"

text \<open>Adding one to a digit string that is given back to front.\<close>

fun increment_rev :: "string \<Rightarrow> string" where
  "increment_rev [] = ''1''"
| "increment_rev (c # cs) =
     (if c = CHR ''9'' then CHR ''0'' # increment_rev cs
      else if isDecimalDigit c then succ_digit c # cs
      else CHR ''1'' # c # cs)"

definition biggystring_toFixed :: toFixed_helper where
  "biggystring_toFixed x minPrecision maxPrecision =
     (let ip = takeWhile (\<lambda>c. c \<noteq> CHR ''.'') x;
          fp = drop 1 (dropWhile (\<lambda>c. c \<noteq> CHR ''.'') x)
      in if maxPrecision < length fp
         then (let kept = ip @ take maxPrecision fp;
                   rounded = (if fp ! maxPrecision \<in> set ''56789''
                              then rev (increment_rev (rev kept)) else kept);
                   n = length rounded - maxPrecision
               in Inr (take n rounded @
                       (if maxPrecision = 0 then [] else CHR ''.'' # drop n rounded)))
         else (let padded = fp @ replicate (minPrecision - length fp) (CHR ''0'')
               in Inr (ip @ (if padded = [] then [] else CHR ''.'' # padded))))"


subsection \<open>The vocabulary of the specification\<close>

text \<open>
  The integer part of a text is what stands before its first separator; its fractional
  part is what stands between the first separator and the next one (or the end), and is
  empty when there is no separator.
\<close>

definition integer_part :: "char \<Rightarrow> string \<Rightarrow> string" where
  "integer_part sep s = takeWhile (\<lambda>c. c \<noteq> sep) s"

definition fraction_part :: "char \<Rightarrow> string \<Rightarrow> string" where
  "fraction_part sep s = takeWhile (\<lambda>c. c \<noteq> sep) (drop 1 (dropWhile (\<lambda>c. c \<noteq> sep) s))"

text \<open>Cutting a text into groups of \<open>n\<close> from the left; the last group may be shorter.\<close>

function groups_of :: "nat \<Rightarrow> string \<Rightarrow> string list" where
  "groups_of n xs = (if n = 0 \<or> xs = [] then [] else take n xs # groups_of n (drop n xs))"
  by pat_completeness auto
termination
  by (relation "measure (\<lambda>(n, xs). length xs)") auto

declare groups_of.simps [simp del]

text \<open>
  Groups of three from the right: a leading group of \<open>len mod 3\<close> characters, or of
  three when that is 0, and groups of three after it.
\<close>

definition leading_group_size :: "nat \<Rightarrow> nat" where
  "leading_group_size len = (if len mod 3 = 0 then 3 else len mod 3)"

definition partition_from_right :: "string \<Rightarrow> string list" where
  "partition_from_right integers =
     take (leading_group_size (length integers)) integers
       # groups_of 3 (drop (leading_group_size (length integers)) integers)"

fun join :: "char \<Rightarrow> string list \<Rightarrow> string" where
  "join sep [] = []"
| "join sep [g] = g"
| "join sep (g # h # gs) = g @ sep # join sep (h # gs)"

text \<open>
  A canonical numeric string: an optional leading \<open>-\<close>, digits, and an optional single
  \<open>.\<close> with digits after it.
\<close>

definition canonical :: "string \<Rightarrow> bool" where
  "canonical s =
     (let body = (if startsWith s (CHR ''-'') then tl s else s);
          rest = dropWhile isDecimalDigit body
      in rest = [] \<or> (hd rest = CHR ''.'' \<and> list_all isDecimalDigit (tl rest)))"

text \<open>Options that do not ask for a fixed number of decimals.\<close>

definition without_toFixed :: "IntlNumberFormatOptionsType option \<Rightarrow> bool" where
  "without_toFixed options = (case options of None \<Rightarrow> True | Some opts \<Rightarrow> toFixed opts = None)"

section \<open>Properties\<close>

subsection \<open>Splitting and replacing\<close>

lemma split_not_Nil: "split sep s \<noteq> []"
  by (induction s) (auto split: list.splits)

lemma split_no_sep: "sep \<notin> set s \<Longrightarrow> split sep s = [s]"
  by (induction s) auto

lemma replace_first_absent: "p \<notin> set s \<Longrightarrow> replace_first p r s = s"
  by (induction s) auto

lemma replace_first_append: "p \<notin> set a \<Longrightarrow> replace_first p r (a @ p # b) = a @ r @ b"
  by (induction a) auto

lemma replace_all_loop_Literal:
  "replace_all_loop (Literal c) prev s = filter (\<lambda>x. x \<noteq> c) s"
  by (induction s arbitrary: prev) auto

lemma replace_all_Literal: "replace_all (Literal c) s = filter (\<lambda>x. x \<noteq> c) s"
  by (simp add: replace_all_def replace_all_loop_Literal)

lemma replace_all_Nil: "replace_all re [] = []"
  by (simp add: replace_all_def)

subsection \<open>Grouping\<close>

lemma join_Cons: "join sep (g # gs) = g @ concat (map ((#) sep) gs)"
  by (induction gs arbitrary: g) auto

lemma groups_of_Nil: "groups_of n [] = []"
  by (simp add: groups_of.simps)

lemma groups_of_step: "0 < n \<Longrightarrow> xs \<noteq> [] \<Longrightarrow> groups_of n xs = take n xs # groups_of n (drop n xs)"
  by (subst groups_of.simps) simp

lemma group_loop_eq:
  "len = length integers \<Longrightarrow>
   group_loop sep integers len i intPart =
     intPart @ concat (map ((#) sep) (groups_of 3 (drop i integers)))"
proof (induction sep integers len i intPart rule: group_loop.induct)
  case (1 sep integers len i intPart)
  show ?case
  proof (cases "i < len")
    case True
    then have ne: "drop i integers \<noteq> []" using "1.prems" by simp
    have "group_loop sep integers len i intPart =
          group_loop sep integers len (i + NUMBER_GROUP_SIZE)
            (intPart @ [sep] @ substr integers i NUMBER_GROUP_SIZE)"
      using True by (subst group_loop.simps) simp
    also have "\<dots> = (intPart @ [sep] @ substr integers i NUMBER_GROUP_SIZE)
          @ concat (map ((#) sep) (groups_of 3 (drop (i + NUMBER_GROUP_SIZE) integers)))"
      using True "1.prems" by (rule "1.IH")
    also have "\<dots> = intPart @ concat (map ((#) sep) (groups_of 3 (drop i integers)))"
      using ne by (simp add: groups_of_step substr_def NUMBER_GROUP_SIZE_def add.commute)
    finally show ?thesis .
  next
    case False
    then have "drop i integers = []" using "1.prems" by simp
    then show ?thesis using False
      by (subst group_loop.simps) (simp add: groups_of_Nil)
  qed
qed

lemma concat_groups_of: "0 < n \<Longrightarrow> concat (groups_of n xs) = xs"
proof (induction n xs rule: groups_of.induct)
  case (1 n xs)
  then show ?case
    by (cases "xs = []") (simp_all add: groups_of_Nil groups_of_step)
qed

lemma groups_of_length:
  "0 < n \<Longrightarrow> length xs mod n = 0 \<Longrightarrow> list_all (\<lambda>g. length g = n) (groups_of n xs)"
proof (induction n xs rule: groups_of.induct)
  case (1 n xs)
  show ?case
  proof (cases "xs = []")
    case True
    then show ?thesis by (simp add: groups_of_Nil)
  next
    case False
    from "1.prems" False have len: "n \<le> length xs"
      by (metis length_greater_0_conv mod_less not_le_imp_less not_less_iff_gr_or_eq)
    then have "(length xs - n) mod n = 0" using "1.prems"
      by (simp add: le_mod_geq)
    with "1.IH" "1.prems" False len show ?thesis
      by (simp add: groups_of_step min_def)
  qed
qed

lemma groups_of_nonempty:
  "list_all (\<lambda>g. g \<noteq> []) (groups_of n xs)"
proof (induction n xs rule: groups_of.induct)
  case (1 n xs)
  show ?case
  proof (cases "n = 0 \<or> xs = []")
    case True
    then show ?thesis by (subst groups_of.simps) simp
  next
    case False
    with "1.IH" show ?thesis
      by (subst groups_of.simps) simp
  qed
qed

lemma leading_group_size_bounds: "0 < leading_group_size len" "leading_group_size len \<le> 3"
  by (simp_all add: leading_group_size_def) 

lemma leading_group_size_le: "0 < len \<Longrightarrow> leading_group_size len \<le> len"
  unfolding leading_group_size_def by presburger

lemma rest_mod_3: "(len - leading_group_size len) mod 3 = 0"
  unfolding leading_group_size_def by presburger

lemma concat_partition_from_right: "concat (partition_from_right xs) = xs"
  by (simp add: partition_from_right_def concat_groups_of)

subsection \<open>What the functions compute\<close>

lemma split_unfold:
  "split sep s =
     takeWhile (\<lambda>c. c \<noteq> sep) s #
       (if sep \<in> set s then split sep (drop 1 (dropWhile (\<lambda>c. c \<noteq> sep) s)) else [])"
proof (induction s)
  case Nil
  show ?case by simp
next
  case (Cons c cs)
  show ?case
  proof (cases "c = sep")
    case True
    then show ?thesis by simp
  next
    case False
    then show ?thesis using Cons.IH by simp
  qed
qed

lemma at_index_split_0: "at_index (split sep s) 0 = Some (integer_part sep s)"
  by (subst split_unfold) (simp add: at_index_def integer_part_def)

lemma at_index_split_1:
  "at_index (split sep s) (Suc 0) = (if sep \<in> set s then Some (fraction_part sep s) else None)"
proof (cases "sep \<in> set s")
  case True
  have "split sep s = integer_part sep s # split sep (drop 1 (dropWhile (\<lambda>c. c \<noteq> sep) s))"
    using True by (subst split_unfold) (simp add: integer_part_def)
  moreover have "split sep (drop 1 (dropWhile (\<lambda>c. c \<noteq> sep) s)) =
      fraction_part sep s # (if sep \<in> set (drop 1 (dropWhile (\<lambda>c. c \<noteq> sep) s))
         then split sep (drop 1 (dropWhile (\<lambda>c. c \<noteq> sep) (drop 1 (dropWhile (\<lambda>c. c \<noteq> sep) s)))) else [])"
    by (subst split_unfold) (simp add: fraction_part_def)
  ultimately show ?thesis using True by (simp add: at_index_def)
next
  case False
  then show ?thesis by (simp add: split_no_sep at_index_def)
qed

lemma fraction_part_absent: "sep \<notin> set s \<Longrightarrow> fraction_part sep s = []"
  unfolding fraction_part_def by (induction s) auto

lemma group_loop_grouped:
  "group_loop sep integers (length integers) (leading_group_size (length integers))
     (substr integers 0 (leading_group_size (length integers))) = join sep (partition_from_right integers)"
  by (simp add: group_loop_eq join_Cons partition_from_right_def substr_def)

lemma formatNumber_eq:
  assumes "stringify_number toFixed_h number options = Inr stringify"
  shows "formatNumber toFixed_h locale number options =
     Inr ((if grouping_requested options
           then join (groupingSeparator locale) (partition_from_right (integer_part (CHR ''.'') stringify))
           else integer_part (CHR ''.'') stringify)
          @ (if fraction_part (CHR ''.'') stringify \<noteq> []
             then decimalSeparator locale # fraction_part (CHR ''.'') stringify else []))"
proof -
  have lead: "(if length (integer_part (CHR ''.'') stringify) mod NUMBER_GROUP_SIZE = 0 then NUMBER_GROUP_SIZE
         else length (integer_part (CHR ''.'') stringify) mod NUMBER_GROUP_SIZE)
        = leading_group_size (length (integer_part (CHR ''.'') stringify))"
    by (simp add: leading_group_size_def NUMBER_GROUP_SIZE_def)
  show ?thesis
    unfolding formatNumber_def assms NATIVE_DECIMAL_SEPARATOR_def
    by (simp add: at_index_split_0 at_index_split_1 Let_def lead group_loop_grouped
        fraction_part_absent)
qed

lemma stringify_number_without_toFixed:
  "without_toFixed options \<Longrightarrow> stringify_number toFixed_h number options = Inr number"
  by (auto simp: without_toFixed_def stringify_number_def split: option.splits)

lemma truncateDecimals_eq:
  assumes "decimalSeparator locale \<in> set input"
  shows "truncateDecimals locale input precision allowBlank =
     Inr (integer_part (decimalSeparator locale) input @ decimalSeparator locale #
          slice_0 (fraction_part (decimalSeparator locale) input) precision)"
proof -
  from assms have "input \<noteq> []" by auto
  then show ?thesis using assms
    by (simp add: truncateDecimals_def includes_str_def Let_def at_index_split_0 at_index_split_1)
qed

subsection \<open>Setting the locale\<close>

text \<open>
  C4: calling \<open>setIntlLocale\<close> with no descriptor at all throws an error, and the
  module state, the locale slot included, is what it was before the call.
\<close>

theorem setIntlLocale_absent:
  "setIntlLocale None st = (Inl (Error ''Please select locale for internationalization''), st)"
  by (simp add: setIntlLocale_def)

theorem setIntlLocale_absent_witness:
  "setIntlLocale None
     \<lparr>current_locale = \<lparr>localeIdentifier = ''de_DE'', decimalSeparator = CHR '','',
                         groupingSeparator = CHR ''.''\<rparr>,
      console_warnings = []\<rparr>
   = (Inl (Error ''Please select locale for internationalization''),
      \<lparr>current_locale = \<lparr>localeIdentifier = ''de_DE'', decimalSeparator = CHR '','',
                          groupingSeparator = CHR ''.''\<rparr>,
       console_warnings = []\<rparr>)"
  by (rule setIntlLocale_absent)

text \<open>
  C5: calling \<open>setIntlLocale\<close> with a descriptor that lacks its decimal separator, its
  grouping separator or its identifier does not throw; it writes one warning to the
  console and puts the default locale (identifier en_US, decimal separator \<open>.\<close>,
  grouping separator \<open>,\<close>) into the slot.
\<close>

theorem setIntlLocale_incomplete:
  assumes "d_decimalSeparator d = None \<or> d_groupingSeparator d = None
           \<or> \<not> truthy_string (d_localeIdentifier d)"
  shows "setIntlLocale (Some d) st =
           (Inr (),
            st\<lparr>console_warnings := console_warnings st @
                 [''Cannot recognize user locale preferences. Default will be used.''],
               current_locale := EN_US_LOCALE\<rparr>)
         \<and> localeIdentifier EN_US_LOCALE = ''en_US''
         \<and> decimalSeparator EN_US_LOCALE = CHR ''.''
         \<and> groupingSeparator EN_US_LOCALE = CHR '',''"
  using assms by (auto simp: setIntlLocale_def EN_US_LOCALE_def split: option.splits)

theorem setIntlLocale_incomplete_witness:
  "setIntlLocale
     (Some \<lparr>d_localeIdentifier = Some ''fr_FR'', d_decimalSeparator = None,
            d_groupingSeparator = None\<rparr>)
     \<lparr>current_locale = \<lparr>localeIdentifier = ''de_DE'', decimalSeparator = CHR '','',
                         groupingSeparator = CHR ''.''\<rparr>,
      console_warnings = []\<rparr>
   = (Inr (),
      \<lparr>current_locale = EN_US_LOCALE,
       console_warnings = [''Cannot recognize user locale preferences. Default will be used.'']\<rparr>)"
  using setIntlLocale_incomplete
    [of "\<lparr>d_localeIdentifier = Some ''fr_FR'', d_decimalSeparator = None,
           d_groupingSeparator = None\<rparr>"
        "\<lparr>current_locale = \<lparr>localeIdentifier = ''de_DE'', decimalSeparator = CHR '','',
                         groupingSeparator = CHR ''.''\<rparr>,
          console_warnings = []\<rparr>"]
  by simp

subsection \<open>Digit grouping\<close>

lemma partition_from_right_hd:
  "integers \<noteq> [] \<Longrightarrow>
   length (hd (partition_from_right integers)) = leading_group_size (length integers)"
  using leading_group_size_le [of "length integers"]
  by (simp add: partition_from_right_def)

lemma partition_from_right_tl:
  "list_all (\<lambda>g. length g = 3) (tl (partition_from_right integers))"
  by (simp add: partition_from_right_def groups_of_length rest_mod_3)

lemma partition_1234567: "partition_from_right ''1234567'' = [''1'', ''234'', ''567'']"
  by (simp add: partition_from_right_def leading_group_size_def groups_of.simps)

text \<open>
  C2: when grouping is not suppressed, \<open>formatNumber\<close> cuts the integer part of the
  stringified number (what stands before the first \<open>.\<close>) into groups of three from the
  right and joins them with the locale's grouping separator: the groups concatenate to
  the integer part, the leading group of a non-empty integer part has
  \<open>len mod 3\<close> characters, or three when that is 0, and every later group has three.
  The fractional part, when it is not empty, follows after the locale's decimal
  separator. In particular ``1234567'' becomes ``1,234,567'' in the default locale and
  ``1.234.567'' in a locale with grouping separator \<open>.\<close> and decimal separator \<open>,\<close>.
\<close>

theorem formatNumber_groups:
  "(stringify_number toFixed_h number options = Inr stringify \<and> grouping_requested options \<longrightarrow>
      formatNumber toFixed_h locale number options =
        Inr (join (groupingSeparator locale)
               (partition_from_right (integer_part (CHR ''.'') stringify))
             @ (if fraction_part (CHR ''.'') stringify \<noteq> []
                then decimalSeparator locale # fraction_part (CHR ''.'') stringify else []))
      \<and> concat (partition_from_right (integer_part (CHR ''.'') stringify))
            = integer_part (CHR ''.'') stringify
      \<and> (integer_part (CHR ''.'') stringify \<noteq> [] \<longrightarrow>
            length (hd (partition_from_right (integer_part (CHR ''.'') stringify)))
              = leading_group_size (length (integer_part (CHR ''.'') stringify)))
      \<and> list_all (\<lambda>g. length g = 3)
            (tl (partition_from_right (integer_part (CHR ''.'') stringify))))
   \<and> formatNumber toFixed_h EN_US_LOCALE ''1234567'' None = Inr ''1,234,567''
   \<and> formatNumber toFixed_h
         \<lparr>localeIdentifier = ident, decimalSeparator = CHR '','', groupingSeparator = CHR ''.''\<rparr>
         ''1234567'' None = Inr ''1.234.567''"
proof (intro conjI impI)
  assume a: "stringify_number toFixed_h number options = Inr stringify \<and> grouping_requested options"
  then show "formatNumber toFixed_h locale number options =
        Inr (join (groupingSeparator locale)
               (partition_from_right (integer_part (CHR ''.'') stringify))
             @ (if fraction_part (CHR ''.'') stringify \<noteq> []
                then decimalSeparator locale # fraction_part (CHR ''.'') stringify else []))"
    by (simp add: formatNumber_eq)
next
  show "concat (partition_from_right (integer_part (CHR ''.'') stringify))
            = integer_part (CHR ''.'') stringify"
    by (rule concat_partition_from_right)
next
  assume "integer_part (CHR ''.'') stringify \<noteq> []"
  then show "length (hd (partition_from_right (integer_part (CHR ''.'') stringify)))
              = leading_group_size (length (integer_part (CHR ''.'') stringify))"
    by (rule partition_from_right_hd)
next
  show "list_all (\<lambda>g. length g = 3)
            (tl (partition_from_right (integer_part (CHR ''.'') stringify)))"
    by (rule partition_from_right_tl)
next
  have s: "stringify_number toFixed_h ''1234567'' None = Inr ''1234567''"
    by (simp add: stringify_number_def)
  show "formatNumber toFixed_h EN_US_LOCALE ''1234567'' None = Inr ''1,234,567''"
    by (simp add: formatNumber_eq [OF s] grouping_requested_def integer_part_def
        fraction_part_def partition_1234567 EN_US_LOCALE_def)
  show "formatNumber toFixed_h
         \<lparr>localeIdentifier = ident, decimalSeparator = CHR '','', groupingSeparator = CHR ''.''\<rparr>
         ''1234567'' None = Inr ''1.234.567''"
    by (simp add: formatNumber_eq [OF s] grouping_requested_def integer_part_def
        fraction_part_def partition_1234567)
qed

lemma partition_1234: "partition_from_right ''1234'' = [''1'', ''234'']"
  by (simp add: partition_from_right_def leading_group_size_def groups_of.simps)

theorem formatNumber_groups_witness:
  "formatNumber biggystring_toFixed EN_US_LOCALE ''1234.5''
     (Some \<lparr>toFixed = None, noGrouping = Some False\<rparr>) = Inr ''1,234.5''
   \<and> concat (partition_from_right ''1234'') = ''1234''
   \<and> length (hd (partition_from_right ''1234'')) = 1
   \<and> list_all (\<lambda>g. length g = 3) (tl (partition_from_right ''1234''))"
  using formatNumber_groups [of biggystring_toFixed "''1234.5''"
      "Some \<lparr>toFixed = None, noGrouping = Some False\<rparr>" "''1234.5''" EN_US_LOCALE]
  by (simp add: stringify_number_def grouping_requested_def integer_part_def fraction_part_def
      partition_1234 EN_US_LOCALE_def leading_group_size_def)

subsection \<open>The \<open>toFixed\<close> option\<close>

text \<open>
  A positive \<open>toFixed\<close> hands the number to the helper, with the option as both
  precisions, before anything else is done; with the modelled helper,
  \<open>formatNumber(''1234.5'', {toFixed: 2})\<close> is ``1,234.50''.
\<close>

lemma formatNumber_toFixed_positive:
  assumes "0 < n"
  shows "formatNumber toFixed_h locale number (Some \<lparr>toFixed = Some n, noGrouping = g\<rparr>) =
     (case toFixed_h number n n of
        Inl e \<Rightarrow> Inl e
      | Inr rounded \<Rightarrow>
          formatNumber toFixed_h locale rounded (Some \<lparr>toFixed = None, noGrouping = g\<rparr>))"
proof (cases "toFixed_h number n n")
  case (Inl e)
  then show ?thesis using assms
    by (simp add: formatNumber_def stringify_number_def)
next
  case (Inr rounded)
  have a: "stringify_number toFixed_h number (Some \<lparr>toFixed = Some n, noGrouping = g\<rparr>) = Inr rounded"
    using assms Inr by (simp add: stringify_number_def)
  have b: "stringify_number toFixed_h rounded (Some \<lparr>toFixed = None, noGrouping = g\<rparr>) = Inr rounded"
    by (simp add: stringify_number_def)
  show ?thesis
    by (simp add: Inr formatNumber_eq [OF a] formatNumber_eq [OF b] grouping_requested_def)
qed

lemma formatNumber_toFixed_2_example:
  "formatNumber biggystring_toFixed EN_US_LOCALE ''1234.5''
     (Some \<lparr>toFixed = Some 2, noGrouping = None\<rparr>) = Inr ''1,234.50''"
proof -
  have s: "stringify_number biggystring_toFixed ''1234.5''
      (Some \<lparr>toFixed = Some 2, noGrouping = None\<rparr>) = Inr ''1234.50''"
    by (simp add: stringify_number_def biggystring_toFixed_def)
  show ?thesis
    by (simp add: formatNumber_eq [OF s] grouping_requested_def integer_part_def
        fraction_part_def partition_1234 EN_US_LOCALE_def)
qed

text \<open>
  C3: the claim is that every non-negative \<open>toFixed\<close> brings the decimal part to
  exactly that many digits. The test \<open>options && options.toFixed\<close> takes the number
  0 for an absent option, so with \<open>toFixed: 0\<close> the helper is never called and
  ``1234.5'' keeps its decimal: the result is ``1,234.5'', whatever the helper is.
\<close>

theorem formatNumber_toFixed_zero:
  "formatNumber toFixed_h EN_US_LOCALE ''1234.5''
     (Some \<lparr>toFixed = Some 0, noGrouping = None\<rparr>) = Inr ''1,234.5''"
proof -
  have s: "stringify_number toFixed_h ''1234.5''
      (Some \<lparr>toFixed = Some 0, noGrouping = None\<rparr>) = Inr ''1234.5''"
    by (simp add: stringify_number_def)
  show ?thesis
    by (simp add: formatNumber_eq [OF s] grouping_requested_def integer_part_def
        fraction_part_def partition_1234 EN_US_LOCALE_def)
qed

subsection \<open>truncateDecimals\<close>

lemma integer_part_append: "sep \<notin> set a \<Longrightarrow> integer_part sep (a @ sep # b) = a"
  unfolding integer_part_def by (induction a) auto

lemma fraction_part_append:
  "sep \<notin> set a \<Longrightarrow> fraction_part sep (a @ sep # b) = takeWhile (\<lambda>c. c \<noteq> sep) b"
  unfolding fraction_part_def by (induction a) auto

lemma takeWhile_absent: "sep \<notin> set b \<Longrightarrow> takeWhile (\<lambda>c. c \<noteq> sep) b = b"
  by (induction b) auto

lemma truncateDecimals_empty:
  "truncateDecimals locale [] precision False = Inr ''0''"
proof (cases "decimalSeparator locale = CHR ''0''")
  case True
  then show ?thesis
    by (cases precision) (simp_all add: truncateDecimals_def includes_str_def at_index_def slice_0_def)
next
  case False
  then show ?thesis
    by (simp add: truncateDecimals_def includes_str_def)
qed

text \<open>
  C7, as amended: for an input \<open>a @ sep # b\<close> whose first decimal separator is the
  one shown and for a precision \<open>p\<close>, \<open>truncateDecimals\<close> returns \<open>a\<close>, the
  separator, and the first \<open>p\<close> characters of what stands between that separator and
  the next one (of all of \<open>b\<close> when \<open>b\<close> has no separator); nothing is rounded.
  A non-empty input with no decimal separator is returned unchanged; the empty input
  becomes ``0'', or stays empty when \<open>allowBlank\<close> is set. In particular
  ``12.34567'' becomes ``12.34'' and ``12.999'' becomes ``12.99'' at precision 2.
\<close>

theorem truncateDecimals_truncates:
  "(decimalSeparator locale \<notin> set a \<longrightarrow>
      truncateDecimals locale (a @ decimalSeparator locale # b) (Some (int p)) allowBlank =
        Inr (a @ decimalSeparator locale # take p (takeWhile (\<lambda>c. c \<noteq> decimalSeparator locale) b)))
   \<and> (decimalSeparator locale \<notin> set a \<and> decimalSeparator locale \<notin> set b \<longrightarrow>
      truncateDecimals locale (a @ decimalSeparator locale # b) (Some (int p)) allowBlank =
        Inr (a @ decimalSeparator locale # take p b))
   \<and> (input \<noteq> [] \<and> decimalSeparator locale \<notin> set input \<longrightarrow>
      truncateDecimals locale input precision allowBlank = Inr input)
   \<and> truncateDecimals locale [] precision False = Inr ''0''
   \<and> truncateDecimals locale [] precision True = Inr []
   \<and> truncateDecimals EN_US_LOCALE ''12.34567'' (Some 2) False = Inr ''12.34''
   \<and> truncateDecimals EN_US_LOCALE ''12.999'' (Some 2) False = Inr ''12.99''"
proof (intro conjI impI)
  assume a: "decimalSeparator locale \<notin> set a"
  then show "truncateDecimals locale (a @ decimalSeparator locale # b) (Some (int p)) allowBlank =
        Inr (a @ decimalSeparator locale # take p (takeWhile (\<lambda>c. c \<noteq> decimalSeparator locale) b))"
    by (simp add: truncateDecimals_eq integer_part_append fraction_part_append slice_0_def)
next
  assume "decimalSeparator locale \<notin> set a \<and> decimalSeparator locale \<notin> set b"
  then show "truncateDecimals locale (a @ decimalSeparator locale # b) (Some (int p)) allowBlank =
        Inr (a @ decimalSeparator locale # take p b)"
    by (simp add: truncateDecimals_eq integer_part_append fraction_part_append slice_0_def
        takeWhile_absent)
next
  assume "input \<noteq> [] \<and> decimalSeparator locale \<notin> set input"
  then show "truncateDecimals locale input precision allowBlank = Inr input"
    by (simp add: truncateDecimals_def includes_str_def)
next
  show "truncateDecimals locale [] precision False = Inr ''0''"
    by (rule truncateDecimals_empty)
next
  show "truncateDecimals locale [] precision True = Inr []"
    by (simp add: truncateDecimals_def includes_str_def)
next
  show "truncateDecimals EN_US_LOCALE ''12.34567'' (Some 2) False = Inr ''12.34''"
    by (simp add: truncateDecimals_eq EN_US_LOCALE_def integer_part_def fraction_part_def
        slice_0_def)
next
  show "truncateDecimals EN_US_LOCALE ''12.999'' (Some 2) False = Inr ''12.99''"
    by (simp add: truncateDecimals_eq EN_US_LOCALE_def integer_part_def fraction_part_def
        slice_0_def)
qed

theorem truncateDecimals_truncates_witness:
  "truncateDecimals EN_US_LOCALE ''1.2.3'' (Some 5) False = Inr ''1.2''
   \<and> truncateDecimals EN_US_LOCALE ''0.123456789'' (Some 6) False = Inr ''0.123456''
   \<and> truncateDecimals EN_US_LOCALE ''42'' (Some 6) False = Inr ''42''"
  using truncateDecimals_truncates [of EN_US_LOCALE "''1''" "''2.3''" 5 False "''42''" "Some 6"]
    truncateDecimals_truncates [of EN_US_LOCALE "''0''" "''123456789''" 6 False "''42''" "Some 6"]
  by (simp add: EN_US_LOCALE_def)

text \<open>
  The claim as first stated fails on the empty input, which has no decimal separator and
  is returned as ``0'', and on ``1.2.3'', whose text after the first separator is cut at
  the second separator and not at the precision.
\<close>

theorem truncateDecimals_counterexample:
  "truncateDecimals EN_US_LOCALE [] (Some 2) False = Inr ''0''
   \<and> truncateDecimals EN_US_LOCALE ''1.2.3'' (Some 5) False = Inr ''1.2''"
  by (simp add: truncateDecimals_empty truncateDecimals_eq EN_US_LOCALE_def integer_part_def
      fraction_part_def slice_0_def)

subsection \<open>formatNumberInput\<close>

lemma stringify_number_None: "stringify_number toFixed_h number None = Inr number"
  by (simp add: stringify_number_def)

lemma formatNumber_None_returns:
  "\<exists>formatted. formatNumber toFixed_h locale number None = Inr formatted"
  by (simp add: formatNumber_eq [OF stringify_number_None])

lemma partition_12: "partition_from_right ''12'' = [''12'']"
  by (simp add: partition_from_right_def leading_group_size_def groups_of.simps)

lemma formatNumber_12: "formatNumber toFixed_h locale ''12'' None = Inr ''12''"
  by (simp add: formatNumber_eq [OF stringify_number_None] grouping_requested_def
      integer_part_def fraction_part_def partition_12)

text \<open>
  C8: for an input that ends in \<open>.\<close> or \<open>,\<close>, \<open>formatNumberInput\<close> formats the
  input without its last character with \<open>formatNumber\<close> (which returns) and appends
  the locale's decimal separator. In particular ``12,'' becomes ``12.'' in the default
  locale and ``12,'' in a locale whose decimal separator is \<open>,\<close>.
\<close>

theorem formatNumberInput_trailing:
  "(endsWith input (CHR ''.'') \<or> endsWith input (CHR '','') \<longrightarrow>
      (\<exists>formatted.
         formatNumber toFixed_h locale (slice_0_m1 input) None = Inr formatted \<and>
         formatNumberInput toFixed_h locale input options =
           Inr (formatted @ [decimalSeparator locale])))
   \<and> formatNumberInput toFixed_h EN_US_LOCALE ''12,'' options = Inr ''12.''
   \<and> formatNumberInput toFixed_h
         \<lparr>localeIdentifier = ident, decimalSeparator = CHR '','', groupingSeparator = gs\<rparr>
         ''12,'' options = Inr ''12,''"
proof (intro conjI impI)
  assume e: "endsWith input (CHR ''.'') \<or> endsWith input (CHR '','')"
  obtain formatted where f: "formatNumber toFixed_h locale (slice_0_m1 input) None = Inr formatted"
    using formatNumber_None_returns by blast
  have "formatNumberInput toFixed_h locale input options = Inr (formatted @ [decimalSeparator locale])"
    using e f by (simp add: formatNumberInput_def)
  with f show "\<exists>formatted.
         formatNumber toFixed_h locale (slice_0_m1 input) None = Inr formatted \<and>
         formatNumberInput toFixed_h locale input options =
           Inr (formatted @ [decimalSeparator locale])"
    by blast
next
  show "formatNumberInput toFixed_h EN_US_LOCALE ''12,'' options = Inr ''12.''"
    by (simp add: formatNumberInput_def endsWith_def slice_0_m1_def formatNumber_12
        EN_US_LOCALE_def)
next
  show "formatNumberInput toFixed_h
         \<lparr>localeIdentifier = ident, decimalSeparator = CHR '','', groupingSeparator = gs\<rparr>
         ''12,'' options = Inr ''12,''"
    by (simp add: formatNumberInput_def endsWith_def slice_0_m1_def formatNumber_12)
qed

theorem formatNumberInput_trailing_witness:
  "formatNumber biggystring_toFixed EN_US_LOCALE ''1234'' None = Inr ''1,234''
   \<and> formatNumberInput biggystring_toFixed EN_US_LOCALE ''1234.''
        (Some \<lparr>toFixed = Some 2, noGrouping = Some True\<rparr>) = Inr ''1,234.''"
  using formatNumberInput_trailing [of "''1234.''" biggystring_toFixed EN_US_LOCALE
      "Some \<lparr>toFixed = Some 2, noGrouping = Some True\<rparr>"]
  by (auto simp: endsWith_def slice_0_m1_def formatNumber_eq [OF stringify_number_None]
      grouping_requested_def integer_part_def fraction_part_def partition_1234 EN_US_LOCALE_def)

subsection \<open>Exceptions\<close>











subsection \<open>isValidInput\<close>

lemma standardize_literal:
  assumes "escapeRegExp (groupingSeparator locale) = Literal (groupingSeparator locale)"
  shows "standardize locale v =
     replace_first (decimalSeparator locale) ''.'' (filter (\<lambda>c. c \<noteq> groupingSeparator locale) v)"
  by (simp add: standardize_def assms replace_all_Literal)

lemma StringToNumber_Nil: "StringToNumber [] = OtherNumber"
  by (simp add: StringToNumber_def trim_def)

lemma isValidInput_1: "isValidInput EN_US_LOCALE ''1,234.56''"
  by code_simp

lemma isValidInput_2: "\<not> isValidInput EN_US_LOCALE ''1.234.56''"
  by code_simp

text \<open>
  C6, as amended: \<open>isValidInput\<close> is true of the locale's decimal separator alone;
  of any other value it is true exactly when the value, with a trailing \<open>.\<close> or
  \<open>,\<close> turned into the decimal separator, every grouping separator removed and the
  first decimal separator replaced by \<open>.\<close>, converts to a Number other than
  \<open>NaN\<close> (for a grouping separator that the escaped regular expression matches
  literally). In the default locale ``1,234.56'' is valid and ``1.234.56'' is not.
\<close>

theorem isValidInput_spec:
  "(escapeRegExp (groupingSeparator locale) = Literal (groupingSeparator locale) \<longrightarrow>
      isValidInput locale v =
        (v = [decimalSeparator locale] \<or>
         StringToNumber
           (replace_first (decimalSeparator locale) ''.''
              (filter (\<lambda>c. c \<noteq> groupingSeparator locale)
                 (if endsWith v (CHR ''.'') \<or> endsWith v (CHR '','')
                  then butlast v @ [decimalSeparator locale] else v))) \<noteq> NaN))
   \<and> isValidInput EN_US_LOCALE ''1,234.56''
   \<and> \<not> isValidInput EN_US_LOCALE ''1.234.56''"
proof (intro conjI impI)
  assume "escapeRegExp (groupingSeparator locale) = Literal (groupingSeparator locale)"
  then show "isValidInput locale v =
        (v = [decimalSeparator locale] \<or>
         StringToNumber
           (replace_first (decimalSeparator locale) ''.''
              (filter (\<lambda>c. c \<noteq> groupingSeparator locale)
                 (if endsWith v (CHR ''.'') \<or> endsWith v (CHR '','')
                  then butlast v @ [decimalSeparator locale] else v))) \<noteq> NaN)"
    by (simp add: isValidInput_def standardize_literal normalize_trailing_def slice_0_m1_def
        isNaN_def)
next
  show "isValidInput EN_US_LOCALE ''1,234.56''" by (rule isValidInput_1)
next
  show "\<not> isValidInput EN_US_LOCALE ''1.234.56''" by (rule isValidInput_2)
qed

lemma EN_US_literal: "escapeRegExp (groupingSeparator EN_US_LOCALE) = Literal (groupingSeparator EN_US_LOCALE)"
  by (simp add: EN_US_LOCALE_def escapeRegExp_def)

lemma StringToNumber_12_5: "StringToNumber ''12.5'' = OtherNumber"
  by code_simp

theorem isValidInput_spec_witness:
  "isValidInput EN_US_LOCALE ''1,2.5''"
  using isValidInput_spec [of EN_US_LOCALE "''1,2.5''"] EN_US_literal StringToNumber_12_5
  by (simp add: EN_US_LOCALE_def endsWith_def)

text \<open>
  The claim as first stated asks for a finite number: ``Infinity'' is valid in the
  default locale, and the number it converts to is \<open>+\<infinity>\<close>.
\<close>

theorem isValidInput_counterexample:
  "isValidInput EN_US_LOCALE ''Infinity''
   \<and> StringToNumber (formatToNativeNumber EN_US_LOCALE ''Infinity'') = PosInfinity"
  by code_simp

text \<open>
  C10, as amended: the empty string is valid in every locale, and a string made only of
  grouping separators is valid when the grouping separator is neither \<open>.\<close> nor
  \<open>,\<close> (and is matched literally by the escaped regular expression).
\<close>

theorem isValidInput_blank:
  "isValidInput locale []
   \<and> (escapeRegExp (groupingSeparator locale) = Literal (groupingSeparator locale)
        \<and> groupingSeparator locale \<noteq> CHR ''.'' \<and> groupingSeparator locale \<noteq> CHR '',''
      \<longrightarrow> isValidInput locale (replicate n (groupingSeparator locale)))"
proof (intro conjI impI)
  show "isValidInput locale []"
    by (simp add: isValidInput_def normalize_trailing_def endsWith_def standardize_def
        replace_all_Nil StringToNumber_Nil isNaN_def)
next
  assume a: "escapeRegExp (groupingSeparator locale) = Literal (groupingSeparator locale)
        \<and> groupingSeparator locale \<noteq> CHR ''.'' \<and> groupingSeparator locale \<noteq> CHR '',''"
  have n: "normalize_trailing locale (replicate n (groupingSeparator locale))
        = replicate n (groupingSeparator locale)"
    using a by (cases n) (auto simp: normalize_trailing_def endsWith_def)
  have "standardize locale (replicate n (groupingSeparator locale)) = []"
    using a by (simp add: standardize_literal)
  with n show "isValidInput locale (replicate n (groupingSeparator locale))"
    by (simp add: isValidInput_def StringToNumber_Nil isNaN_def)
qed

theorem isValidInput_blank_witness:
  "isValidInput \<lparr>localeIdentifier = ''fr_FR'', decimalSeparator = CHR '','',
                  groupingSeparator = CHR '' ''\<rparr> ''   ''"
  using isValidInput_blank [of "\<lparr>localeIdentifier = ''fr_FR'', decimalSeparator = CHR '','',
                  groupingSeparator = CHR '' ''\<rparr>" 3]
  by (simp add: escapeRegExp_def numeral_3_eq_3)

text \<open>
  In the default locale the grouping separator is \<open>,\<close>: the value ``,'' ends in
  \<open>,\<close>, which becomes the decimal separator, and ``.'' converts to \<open>NaN\<close>.
\<close>

theorem isValidInput_blank_counterexample:
  "\<not> isValidInput EN_US_LOCALE '',''"
  by code_simp

subsection \<open>Formatting and reading back\<close>

lemma filter_join:
  "filter (\<lambda>x. x \<noteq> sep) (join sep gs) = filter (\<lambda>x. x \<noteq> sep) (concat gs)"
  by (induction sep gs rule: join.induct) auto

lemma join_last:
  "gs \<noteq> [] \<Longrightarrow> list_all (\<lambda>g. g \<noteq> []) gs \<Longrightarrow>
   join sep gs \<noteq> [] \<and> last (join sep gs) = last (concat gs)"
  by (induction sep gs rule: join.induct) auto

lemma partition_from_right_nonempty:
  "integers \<noteq> [] \<Longrightarrow> list_all (\<lambda>g. g \<noteq> []) (partition_from_right integers)"
  using leading_group_size_bounds(1) [of "length integers"]
  by (simp add: partition_from_right_def groups_of_nonempty)

lemma endsWith_grouped:
  "endsWith (join sep (partition_from_right integers)) c = endsWith integers c"
proof (cases "integers = []")
  case True
  then show ?thesis
    by (simp add: partition_from_right_def groups_of_Nil)
next
  case False
  have "partition_from_right integers \<noteq> []"
    by (simp add: partition_from_right_def)
  from join_last [OF this partition_from_right_nonempty [OF False], of sep] False
  show ?thesis
    by (simp add: endsWith_def concat_partition_from_right)
qed

lemma filter_grouped:
  "sep \<notin> set integers \<Longrightarrow>
   filter (\<lambda>x. x \<noteq> sep) (join sep (partition_from_right integers)) = integers"
  by (auto simp: filter_join concat_partition_from_right filter_id_conv)

lemma endsWith_mem: "endsWith xs c \<Longrightarrow> c \<in> set xs"
  by (auto simp: endsWith_def)

text \<open>Formatting and reading back a text given by its integer and fractional parts.\<close>

lemma native_of_formatted:
  assumes lit: "escapeRegExp (groupingSeparator locale) = Literal (groupingSeparator locale)"
    and g: "groupingSeparator locale \<notin> set ip" "groupingSeparator locale \<notin> set fp"
    and d: "decimalSeparator locale \<notin> set ip" "decimalSeparator locale \<noteq> groupingSeparator locale"
    and ip: "CHR ''.'' \<notin> set ip" "CHR '','' \<notin> set ip"
    and fp: "CHR ''.'' \<notin> set fp" "CHR '','' \<notin> set fp"
    and x: "x = ip \<or> x = join (groupingSeparator locale) (partition_from_right ip)"
  shows "formatToNativeNumber locale
           (x @ (if fp \<noteq> [] then decimalSeparator locale # fp else []))
         = ip @ (if fp \<noteq> [] then CHR ''.'' # fp else [])"
proof -
  have ex: "\<not> endsWith x (CHR ''.'')" "\<not> endsWith x (CHR '','')"
    using x ip by (auto simp: endsWith_grouped dest: endsWith_mem)
  have fx: "filter (\<lambda>c. c \<noteq> groupingSeparator locale) x = ip"
    using x g(1) by (auto simp: filter_grouped filter_id_conv)
  have ef: "fp \<noteq> [] \<Longrightarrow> \<not> endsWith fp (CHR ''.'') \<and> \<not> endsWith fp (CHR '','')"
    using fp by (auto dest: endsWith_mem)
  show ?thesis
  proof (cases "fp = []")
    case True
    then show ?thesis
      using ex fx d(1)
      by (simp add: formatToNativeNumber_def normalize_trailing_def standardize_literal [OF lit]
          replace_first_absent)
  next
    case False
    have e: "\<not> endsWith (x @ decimalSeparator locale # fp) (CHR ''.'')"
        "\<not> endsWith (x @ decimalSeparator locale # fp) (CHR '','')"
      using ef [OF False] False by (simp_all add: endsWith_def)
    have "filter (\<lambda>c. c \<noteq> groupingSeparator locale) (x @ decimalSeparator locale # fp)
        = ip @ decimalSeparator locale # fp"
      using fx g(2) d(2) by (auto simp: filter_id_conv)
    then show ?thesis
      using e False d(1)
      by (simp add: formatToNativeNumber_def normalize_trailing_def standardize_literal [OF lit]
          replace_first_append)
  qed
qed

lemma sign_body:
  "s = (if startsWith s c then [c] else []) @ (if startsWith s c then tl s else s)"
  by (cases s) (simp_all add: startsWith_def)

lemma takeWhile_digits: "list_all isDecimalDigit (takeWhile isDecimalDigit body)"
  by (induction body) simp_all

lemma canonical_parts:
  assumes "canonical s"
  shows "\<exists>ip fs. (s = ip \<or> s = ip @ CHR ''.'' # fs)
           \<and> list_all (\<lambda>c. isDecimalDigit c \<or> c = CHR ''-'') ip
           \<and> list_all isDecimalDigit fs"
proof -
  define body where "body = (if startsWith s (CHR ''-'') then tl s else s)"
  define sign where "sign = (if startsWith s (CHR ''-'') then ''-'' else [])"
  define ds where "ds = takeWhile isDecimalDigit body"
  define rest where "rest = dropWhile isDecimalDigit body"
  have s: "s = sign @ body"
    unfolding sign_def body_def by (rule sign_body)
  have b: "body = ds @ rest"
    unfolding ds_def rest_def by simp
  have dd: "list_all isDecimalDigit ds"
    unfolding ds_def by (rule takeWhile_digits)
  have sg: "list_all (\<lambda>c. isDecimalDigit c \<or> c = CHR ''-'') sign"
    unfolding sign_def by simp
  have ip: "list_all (\<lambda>c. isDecimalDigit c \<or> c = CHR ''-'') (sign @ ds)"
    using dd sg by (simp add: list_all_iff, blast)
  from assms have c: "rest = [] \<or> (hd rest = CHR ''.'' \<and> list_all isDecimalDigit (tl rest))"
    unfolding canonical_def Let_def body_def rest_def .
  show ?thesis
  proof (cases rest)
    case Nil
    with s b have "s = sign @ ds" by simp
    with ip have "(s = sign @ ds \<or> s = (sign @ ds) @ CHR ''.'' # [])
           \<and> list_all (\<lambda>c. isDecimalDigit c \<or> c = CHR ''-'') (sign @ ds)
           \<and> list_all isDecimalDigit []" by simp
    then show ?thesis by blast
  next
    case (Cons r rs)
    with c have r: "r = CHR ''.''" and rs: "list_all isDecimalDigit rs" by simp_all
    from s b Cons r have "s = (sign @ ds) @ CHR ''.'' # rs" by simp
    with ip rs have "(s = sign @ ds \<or> s = (sign @ ds) @ CHR ''.'' # rs)
           \<and> list_all (\<lambda>c. isDecimalDigit c \<or> c = CHR ''-'') (sign @ ds)
           \<and> list_all isDecimalDigit rs" by simp
    then show ?thesis by blast
  qed
qed

lemma not_in_digits_or_minus:
  assumes "list_all (\<lambda>c. isDecimalDigit c \<or> c = CHR ''-'') xs"
    and "\<not> isDecimalDigit x" and "x \<noteq> CHR ''-''"
  shows "x \<notin> set xs"
  using assms unfolding list_all_iff by blast

lemma not_in_digits:
  assumes "list_all isDecimalDigit xs" and "\<not> isDecimalDigit x"
  shows "x \<notin> set xs"
  using assms unfolding list_all_iff by blast

text \<open>
  C1, as amended: let the locale's separators be distinct, neither of them a decimal
  digit or \<open>-\<close>, and the grouping separator one that the escaped regular expression
  matches literally. Then for every canonical numeric string \<open>s\<close> that does not end in
  \<open>.\<close> and all options without \<open>toFixed\<close>, \<open>formatNumber\<close> returns a text from
  which \<open>formatToNativeNumber\<close> gives \<open>s\<close> back.
\<close>

theorem format_native_roundtrip:
  assumes can: "canonical s"
    and nt: "\<not> endsWith s (CHR ''.'')"
    and opt: "without_toFixed options"
    and dg: "decimalSeparator locale \<noteq> groupingSeparator locale"
    and d: "\<not> isDecimalDigit (decimalSeparator locale)" "decimalSeparator locale \<noteq> CHR ''-''"
    and g: "\<not> isDecimalDigit (groupingSeparator locale)" "groupingSeparator locale \<noteq> CHR ''-''"
    and lit: "escapeRegExp (groupingSeparator locale) = Literal (groupingSeparator locale)"
  shows "\<exists>formatted.
           formatNumber toFixed_h locale s options = Inr formatted \<and>
           formatToNativeNumber locale formatted = s"
proof -
  from canonical_parts [OF can] obtain ip fs
    where s: "s = ip \<or> s = ip @ CHR ''.'' # fs"
      and ip: "list_all (\<lambda>c. isDecimalDigit c \<or> c = CHR ''-'') ip"
      and fs: "list_all isDecimalDigit fs"
    by blast
  have ip_dot: "CHR ''.'' \<notin> set ip" and ip_comma: "CHR '','' \<notin> set ip"
    by (rule not_in_digits_or_minus [OF ip]; simp add: isDecimalDigit_def)+
  have fs_dot: "CHR ''.'' \<notin> set fs" and fs_comma: "CHR '','' \<notin> set fs"
    by (rule not_in_digits [OF fs]; simp add: isDecimalDigit_def)+
  have g_ip: "groupingSeparator locale \<notin> set ip"
    by (rule not_in_digits_or_minus [OF ip g])
  have g_fs: "groupingSeparator locale \<notin> set fs"
    by (rule not_in_digits [OF fs g(1)])
  have d_ip: "decimalSeparator locale \<notin> set ip"
    by (rule not_in_digits_or_minus [OF ip d])
  have str: "stringify_number toFixed_h s options = Inr s"
    by (rule stringify_number_without_toFixed [OF opt])
  define x where "x = (if grouping_requested options
      then join (groupingSeparator locale) (partition_from_right ip) else ip)"
  have x: "x = ip \<or> x = join (groupingSeparator locale) (partition_from_right ip)"
    by (simp add: x_def)
  note native = native_of_formatted [OF lit g_ip _ d_ip dg ip_dot ip_comma _ _ x]
  from s show ?thesis
  proof
    assume e: "s = ip"
    have parts: "integer_part (CHR ''.'') s = ip" "fraction_part (CHR ''.'') s = []"
      using ip_dot unfolding e
      by (simp_all add: integer_part_def takeWhile_absent fraction_part_absent)
    have f: "formatNumber toFixed_h locale s options = Inr x"
      by (simp add: formatNumber_eq [OF str] parts x_def)
    have "formatToNativeNumber locale x = ip"
      using native [of "[]"] by simp
    with f e show ?thesis by simp
  next
    assume e: "s = ip @ CHR ''.'' # fs"
    have ne: "fs \<noteq> []"
      using nt unfolding e by (auto simp: endsWith_def)
    have parts: "integer_part (CHR ''.'') s = ip" "fraction_part (CHR ''.'') s = fs"
      using ip_dot fs_dot unfolding e
      by (simp_all add: integer_part_append fraction_part_append takeWhile_absent)
    have f: "formatNumber toFixed_h locale s options = Inr (x @ decimalSeparator locale # fs)"
      using ne by (simp add: formatNumber_eq [OF str] parts x_def)
    have "formatToNativeNumber locale (x @ decimalSeparator locale # fs) = ip @ CHR ''.'' # fs"
      using native [OF g_fs fs_dot fs_comma] ne by simp
    with f e show ?thesis by simp
  qed
qed

lemma partition_m1234567: "partition_from_right ''-1234567'' = [''-1'', ''234'', ''567'']"
  by (simp add: partition_from_right_def leading_group_size_def groups_of.simps)

lemma formatNumber_de_example:
  "formatNumber toFixed_h
     \<lparr>localeIdentifier = ''de_DE'', decimalSeparator = CHR '','', groupingSeparator = CHR ''.''\<rparr>
     ''-1234567.89'' None = Inr ''-1.234.567,89''"
  by (simp add: formatNumber_eq [OF stringify_number_None] grouping_requested_def
      integer_part_def fraction_part_def partition_m1234567)

theorem format_native_roundtrip_witness:
  "formatNumber biggystring_toFixed
     \<lparr>localeIdentifier = ''de_DE'', decimalSeparator = CHR '','', groupingSeparator = CHR ''.''\<rparr>
     ''-1234567.89'' None = Inr ''-1.234.567,89''
   \<and> formatToNativeNumber
     \<lparr>localeIdentifier = ''de_DE'', decimalSeparator = CHR '','', groupingSeparator = CHR ''.''\<rparr>
     ''-1.234.567,89'' = ''-1234567.89''"
proof -
  have "canonical ''-1234567.89''"
    by (simp add: canonical_def startsWith_def isDecimalDigit_def)
  from format_native_roundtrip [OF this, of None
      "\<lparr>localeIdentifier = ''de_DE'', decimalSeparator = CHR '','', groupingSeparator = CHR ''.''\<rparr>"
      biggystring_toFixed]
  show ?thesis
    by (simp add: endsWith_def without_toFixed_def isDecimalDigit_def escapeRegExp_def
        formatNumber_de_example)
qed

lemma partition_m1234: "partition_from_right ''-1234'' = [''-1'', ''234'']"
  by (simp add: partition_from_right_def leading_group_size_def groups_of.simps)

text \<open>
  The claim as first stated fails in a locale whose grouping separator is \<open>-\<close>, where
  reading ``-1-234'' back removes the sign, and in the default locale on ``12.'', whose
  trailing point \<open>formatNumber\<close> drops.
\<close>

theorem format_native_roundtrip_counterexample:
  "canonical ''-1234''
   \<and> formatNumber biggystring_toFixed
        \<lparr>localeIdentifier = ''xx'', decimalSeparator = CHR ''.'', groupingSeparator = CHR ''-''\<rparr>
        ''-1234'' None = Inr ''-1-234''
   \<and> formatToNativeNumber
        \<lparr>localeIdentifier = ''xx'', decimalSeparator = CHR ''.'', groupingSeparator = CHR ''-''\<rparr>
        ''-1-234'' = ''1234''
   \<and> canonical ''12.''
   \<and> formatNumber biggystring_toFixed EN_US_LOCALE ''12.'' None = Inr ''12''
   \<and> formatToNativeNumber EN_US_LOCALE ''12'' = ''12''"
proof (intro conjI)
  show "canonical ''-1234''" "canonical ''12.''"
    by (simp_all add: canonical_def startsWith_def isDecimalDigit_def)
  show "formatNumber biggystring_toFixed
        \<lparr>localeIdentifier = ''xx'', decimalSeparator = CHR ''.'', groupingSeparator = CHR ''-''\<rparr>
        ''-1234'' None = Inr ''-1-234''"
    by (simp add: formatNumber_eq [OF stringify_number_None] grouping_requested_def
        integer_part_def fraction_part_def partition_m1234)
  show "formatToNativeNumber
        \<lparr>localeIdentifier = ''xx'', decimalSeparator = CHR ''.'', groupingSeparator = CHR ''-''\<rparr>
        ''-1-234'' = ''1234''"
    by code_simp
  show "formatNumber biggystring_toFixed EN_US_LOCALE ''12.'' None = Inr ''12''"
    by (simp add: formatNumber_eq [OF stringify_number_None] grouping_requested_def
        integer_part_def fraction_part_def partition_12)
  show "formatToNativeNumber EN_US_LOCALE ''12'' = ''12''"
    by code_simp
qed

end
